theory Spec2Isabelle
  imports Complex_Main
begin

section \<open>The operator prelude of minitorch (\<^verbatim>\<open>minitorch/operators.py\<close>)\<close>

text \<open>
  The module is a collection of scalar operators and three list combinators.
  The embedding reads a Python scalar as its numeric value, a \<^typ>\<open>real\<close>, and
  an operator as the exact operation on these values. A call that raises becomes
  \<open>Inl\<close> of the exception, a call that returns becomes \<open>Inr\<close> of the value. A
  finite Python sequence is a list.

  The scalars of the program are IEEE doubles. In two operators the doubles
  decide more than the last digits of the result, and these are modelled on the
  doubles: \<open>inv_back\<close>, whose square \<^verbatim>\<open>inv(x) ** 2\<close> raises \<^verbatim>\<open>OverflowError\<close> when it
  leaves the range of the doubles (modelled with the range and the infinities,
  without rounding inside the range), and \<open>sigmoid\<close>, whose sum \<^verbatim>\<open>1 + math.exp(..)\<close>
  rounds to \<open>1\<close> for a small exponential (modelled a second time, as
  \<open>sigmoid_double\<close>, with every operation rounded to the nearest double).
\<close>

subsection \<open>Values and exceptions\<close>

text \<open>
  The exceptions the module can raise: \<^verbatim>\<open>ZeroDivisionError\<close> from the division
  \<^verbatim>\<open>1 / x\<close>, \<^verbatim>\<open>ValueError\<close> (``math domain error'') from \<^verbatim>\<open>math.log\<close>, and
  \<^verbatim>\<open>OverflowError\<close> from the power \<^verbatim>\<open>**\<close> and from \<^verbatim>\<open>math.exp\<close> when the result
  is beyond the largest double.
\<close>

datatype error = ZeroDivisionError | ValueError | OverflowError

text \<open>
  A comparison in Python evaluates to an object of class \<^verbatim>\<open>bool\<close>, an
  arithmetic expression on floats to an object of class \<^verbatim>\<open>float\<close>. The
  class of the returned object is kept in the model of the functions that
  return the result of a comparison. \<open>as_float\<close> is Python's \<^verbatim>\<open>float(v)\<close>.
\<close>

datatype pyval = PyBool bool | PyFloat real

fun as_float :: "pyval \<Rightarrow> real" where
  "as_float (PyBool b) = (if b then 1 else 0)"
| "as_float (PyFloat r) = r"

subsection \<open>Library functions the module calls\<close>

text \<open>
  \<^verbatim>\<open>math.log(y)\<close> of the Python standard library: the natural logarithm,
  raising \<^verbatim>\<open>ValueError\<close> when \<open>y\<close> is not positive. \<open>math_exp\<close> is the value
  of \<^verbatim>\<open>math.exp\<close>, the exponential function, where it returns one; this is so on
  every argument \<open>y \<le> 0\<close>, the only ones \<open>sigmoid\<close> passes.
\<close>

definition math_log :: "real \<Rightarrow> error + real" where
  "math_log y = (if y \<le> 0 then Inl ValueError else Inr (ln y))"

definition math_exp :: "real \<Rightarrow> real" where
  "math_exp y = exp y"

text \<open>Python's true division \<^verbatim>\<open>a / b\<close> on numbers.\<close>

definition truediv :: "real \<Rightarrow> real \<Rightarrow> error + real" where
  "truediv a b = (if b = 0 then Inl ZeroDivisionError else Inr (a / b))"

subsection \<open>The doubles: range\<close>

text \<open>
  A finite double is at most \<open>(2\<^sup>5\<^sup>3 - 1) * 2\<^sup>9\<^sup>7\<^sup>1\<close> in absolute value. An exact
  result \<open>r\<close> rounds to an infinity when \<open>\<bar>r\<bar>\<close> reaches the midpoint between that
  bound and \<open>2\<^sup>1\<^sup>0\<^sup>2\<^sup>4\<close>. \<open>to_double r\<close> is the double an arithmetic operation with
  exact result \<open>r\<close> returns, up to the rounding of a result inside the range.
\<close>

definition overflows :: "real \<Rightarrow> bool" where
  "overflows r = (\<bar>r\<bar> \<ge> 2 ^ 1024 - 2 ^ 970)"







subsection \<open>The doubles: rounding\<close>








subsection \<open>Scalar operators\<close>

definition mul :: "real \<Rightarrow> real \<Rightarrow> real" where
  "mul x y = x * y"

definition id_py :: "real \<Rightarrow> real" where
  "id_py x = x"

definition add :: "real \<Rightarrow> real \<Rightarrow> real" where
  "add x y = x + y"

definition neg :: "real \<Rightarrow> real" where
  "neg x = - x"

definition lt :: "real \<Rightarrow> real \<Rightarrow> pyval" where
  "lt x y = PyBool (x < y)"

definition eq_py :: "real \<Rightarrow> real \<Rightarrow> pyval" where
  "eq_py x y = PyBool (x = y)"

definition max_py :: "real \<Rightarrow> real \<Rightarrow> real" where
  "max_py x y = (if x > y then x else y)"

definition is_close :: "real \<Rightarrow> real \<Rightarrow> pyval" where
  "is_close x y = PyBool (\<bar>x - y\<bar> < 1 / 100)"

definition sigmoid :: "real \<Rightarrow> real" where
  "sigmoid x =
     (if x \<ge> 0 then 1 / (1 + math_exp (neg x))
      else math_exp x / (1 + math_exp x))"


definition relu :: "real \<Rightarrow> real" where
  "relu x = max_py x 0"

definition EPS :: real where
  "EPS = 1 / 1000000"

definition log_py :: "real \<Rightarrow> error + real" where
  "log_py x = math_log (x + EPS)"

definition exp_py :: "real \<Rightarrow> error + real" where
  "exp_py x = (if overflows (exp x) then Inl OverflowError else Inr (math_exp x))"

definition inv_py :: "real \<Rightarrow> error + real" where
  "inv_py x = truediv 1 x"

definition log_back :: "real \<Rightarrow> real \<Rightarrow> error + real" where
  "log_back x d = (case inv_py x of Inl e \<Rightarrow> Inl e | Inr v \<Rightarrow> Inr (v * d))"


definition relu_back :: "real \<Rightarrow> real \<Rightarrow> real" where
  "relu_back x d = (if x > 0 then d else 0)"

subsection \<open>Higher-order combinators\<close>

text \<open>
  Each combinator returns a closure \<^verbatim>\<open>apply\<close> whose body is a \<^verbatim>\<open>for\<close> loop.
  The loop is a recursive function over the list whose extra argument is the
  loop's variable (\<^verbatim>\<open>ret\<close>, \<^verbatim>\<open>ori\<close>); the combinator starts it at the initial value.
\<close>

fun map_loop :: "('a \<Rightarrow> 'b) \<Rightarrow> 'b list \<Rightarrow> 'a list \<Rightarrow> 'b list" where
  "map_loop fn ret [] = ret"
| "map_loop fn ret (x # ls) = map_loop fn (ret @ [fn x]) ls"

definition map_py :: "('a \<Rightarrow> 'b) \<Rightarrow> 'a list \<Rightarrow> 'b list" where
  "map_py fn = (\<lambda>ls. map_loop fn [] ls)"

definition negList :: "real list \<Rightarrow> real list" where
  "negList ls = map_py neg ls"

text \<open>
  \<^verbatim>\<open>zip(l1, l2)\<close> yields a pair as long as both iterators yield an element,
  and stops at the first one that is exhausted.
\<close>

fun zipWith_loop :: "('a \<Rightarrow> 'b \<Rightarrow> 'c) \<Rightarrow> 'c list \<Rightarrow> 'a list \<Rightarrow> 'b list \<Rightarrow> 'c list" where
  "zipWith_loop fn ret (x # l1) (y # l2) = zipWith_loop fn (ret @ [fn x y]) l1 l2"
| "zipWith_loop fn ret [] l2 = ret"
| "zipWith_loop fn ret l1 [] = ret"

definition zipWith :: "('a \<Rightarrow> 'b \<Rightarrow> 'c) \<Rightarrow> 'a list \<Rightarrow> 'b list \<Rightarrow> 'c list" where
  "zipWith fn = (\<lambda>l1 l2. zipWith_loop fn [] l1 l2)"

definition addLists :: "real list \<Rightarrow> real list \<Rightarrow> real list" where
  "addLists ls1 ls2 = zipWith add ls1 ls2"

fun reduce_loop :: "('a \<Rightarrow> 'b \<Rightarrow> 'b) \<Rightarrow> 'b \<Rightarrow> 'a list \<Rightarrow> 'b" where
  "reduce_loop fn ori [] = ori"
| "reduce_loop fn ori (w # ls) = reduce_loop fn (fn w ori) ls"

definition reduce :: "('a \<Rightarrow> 'b \<Rightarrow> 'b) \<Rightarrow> 'b \<Rightarrow> 'a list \<Rightarrow> 'b" where
  "reduce fn start = (\<lambda>ls. reduce_loop fn start ls)"

definition sum_py :: "real list \<Rightarrow> real" where
  "sum_py ls = reduce add 0 ls"

definition prod_py :: "real list \<Rightarrow> real" where
  "prod_py ls = reduce mul 1 ls"

text \<open>
  The nested application the documentation of \<^verbatim>\<open>reduce\<close> writes,
  \<open>fn x\<^sub>n (fn x\<^sub>n\<^sub>-\<^sub>1 (\<dots> (fn x\<^sub>1 s\<^sub>0)))\<close>, built from the innermost call outwards:
  the last element of the sequence is the argument of the outermost call.
\<close>

fun nested :: "('a \<Rightarrow> 'b \<Rightarrow> 'b) \<Rightarrow> 'b \<Rightarrow> 'a list \<Rightarrow> 'b" where
  "nested fn s0 [] = s0"
| "nested fn s0 (xn # before) = fn xn (nested fn s0 before)"

definition spec_reduce :: "('a \<Rightarrow> 'b \<Rightarrow> 'b) \<Rightarrow> 'b \<Rightarrow> 'a list \<Rightarrow> 'b" where
  "spec_reduce fn s0 xs = nested fn s0 (rev xs)"

section \<open>Properties of the loops\<close>

lemma reduce_loop_append:
  "reduce_loop fn ori (ls @ [w]) = fn w (reduce_loop fn ori ls)"
  by (induction ls arbitrary: ori) simp_all

lemma reduce_loop_nested: "reduce_loop fn ori ls = nested fn ori (rev ls)"
proof (induction ls rule: rev_induct)
  case Nil
  show ?case by simp
next
  case (snoc w ls)
  then show ?case by (simp add: reduce_loop_append)
qed

lemma reduce_loop_add: "reduce_loop add ori ls = ori + sum_list ls"
  by (induction ls arbitrary: ori) (simp_all add: add_def)

lemma reduce_loop_mul: "reduce_loop mul ori ls = ori * prod_list ls"
  by (induction ls arbitrary: ori) (simp_all add: mul_def)

lemma zipWith_loop_map2: "zipWith_loop fn ret l1 l2 = ret @ map2 fn l1 l2"
  by (induction fn ret l1 l2 rule: zipWith_loop.induct) simp_all

lemma map_loop_map: "map_loop fn ret ls = ret @ map fn ls"
  by (induction ls arbitrary: ret) simp_all

lemma reduce_sub_example:
  "reduce (\<lambda>w acc. w - acc) (10::int) [1, 2] = 2 - (1 - 10)"
  by (simp add: reduce_def)

section \<open>Bounds on the logarithm of ten\<close>

text \<open>
  The exponential dominates its Taylor polynomial of degree five everywhere (the
  remainder of order six is a square times a positive factor), which brackets
  \<open>ln 10\<close> between 2.3025 and 2.3026 by rational arithmetic.
\<close>

lemma exp_ge_taylor6:
  fixes x :: real
  shows "1 + x + x^2 / 2 + x^3 / 6 + x^4 / 24 + x^5 / 120 \<le> exp x"
proof -
  obtain t where t: "exp x = (\<Sum>m<6. x ^ m / fact m) + exp t / fact 6 * x ^ 6"
    using Maclaurin_exp_le [of x 6] by blast
  have "0 \<le> exp t / fact 6 * x ^ 6"
    by (intro mult_nonneg_nonneg divide_nonneg_nonneg) simp_all
  moreover have "(\<Sum>m<6. x ^ m / fact m) = 1 + x + x^2 / 2 + x^3 / 6 + x^4 / 24 + x^5 / 120"
    by (simp add: eval_nat_numeral fact_numeral lessThan_Suc)
  ultimately show ?thesis using t by linarith
qed

lemma ten_less_exp: "10 < exp (23026 / 10000 :: real)"
proof -
  let ?x = "23026 / 100000 :: real"
  have "(10::real) < (1258926 / 1000000) ^ 10"
    by (simp add: power_divide)
  also have "(1258926 / 1000000 :: real) ^ 10 \<le> exp ?x ^ 10"
  proof (rule power_mono)
    have "(1258926 / 1000000 :: real)
        \<le> 1 + ?x + ?x^2 / 2 + ?x^3 / 6 + ?x^4 / 24 + ?x^5 / 120"
      by (simp add: power_divide)
    also have "\<dots> \<le> exp ?x"
      by (rule exp_ge_taylor6)
    finally show "1258926 / 1000000 \<le> exp ?x" .
  qed simp
  also have "exp ?x ^ 10 = exp (23026 / 10000)"
    using exp_of_nat_mult [of 10 ?x] by simp
  finally show ?thesis .
qed

lemma exp_less_ten: "exp (23025 / 10000 :: real) < 10"
proof -
  let ?x = "- (23025 / 100000) :: real"
  have "(1 / 10 :: real) < (79433 / 100000) ^ 10"
    by (simp add: power_divide)
  also have "(79433 / 100000 :: real) ^ 10 \<le> exp ?x ^ 10"
  proof (rule power_mono)
    have "(79433 / 100000 :: real)
        \<le> 1 + ?x + ?x^2 / 2 + ?x^3 / 6 + ?x^4 / 24 + ?x^5 / 120"
      by (simp add: power_divide)
    also have "\<dots> \<le> exp ?x"
      by (rule exp_ge_taylor6)
    finally show "79433 / 100000 \<le> exp ?x" .
  qed simp
  also have "exp ?x ^ 10 = exp (- (23025 / 10000))"
    using exp_of_nat_mult [of 10 ?x] by simp
  finally have "1 / 10 < exp (- (23025 / 10000 :: real))" .
  then show ?thesis
    by (simp add: exp_minus field_simps)
qed

lemma ln_10_bounds: "23025 / 10000 < ln (10::real) \<and> ln (10::real) < 23026 / 10000"
proof -
  have "ln (exp (23025 / 10000 :: real)) < ln 10"
    using exp_less_ten by (intro ln_strict_mono) simp_all
  moreover have "ln 10 < ln (exp (23026 / 10000 :: real))"
    using ten_less_exp by (intro ln_strict_mono) simp_all
  ultimately show ?thesis by simp
qed

lemma ln_millionth: "ln (1 / 1000000 :: real) = - 6 * ln 10"
proof -
  have a: "(1 / 1000000 :: real) = inverse (10 ^ 6)"
    by simp
  have "ln (inverse ((10::real) ^ 6)) = - ln (10 ^ 6)"
    by (rule ln_inverse)
  also have "ln ((10::real) ^ 6) = real 6 * ln 10"
    by (rule ln_realpow)
  finally have "ln (inverse ((10::real) ^ 6)) = - 6 * ln 10"
    by simp
  then show ?thesis
    by (simp only: a)
qed

lemma ln_millionth_approx: "\<bar>ln (1 / 1000000 :: real) - (- 13815 / 1000)\<bar> < 1 / 1000"
  using ln_10_bounds by (simp add: ln_millionth abs_less_iff)

section \<open>The scalar operators, case by case\<close>

lemma inv_py_cases: "inv_py x = (if x = 0 then Inl ZeroDivisionError else Inr (1 / x))"
  by (simp add: inv_py_def truediv_def)

lemma log_back_cases:
  "log_back x d = (if x = 0 then Inl ZeroDivisionError else Inr (1 / x * d))"
  by (simp add: log_back_def inv_py_cases)





lemma log_py_cases:
  "log_py x = (if x + EPS \<le> 0 then Inl ValueError else Inr (ln (x + EPS)))"
  by (simp add: log_py_def math_log_def)

lemma sigmoid_pos: "0 < sigmoid x"
  by (simp add: sigmoid_def math_exp_def neg_def add_pos_pos)

lemma sigmoid_less_one: "sigmoid x < 1"
  by (simp add: sigmoid_def math_exp_def neg_def add_pos_pos)

lemma sigmoid_sum: "sigmoid x + sigmoid (- x) = 1"
proof -
  have pos: "1 + exp y \<noteq> 0" for y :: real
    using exp_gt_zero [of y] by linarith
  consider "x > 0" | "x = 0" | "x < 0" by linarith
  then show ?thesis
  proof cases
    case 1
    then have "sigmoid x + sigmoid (- x) = 1 / (1 + exp (- x)) + exp (- x) / (1 + exp (- x))"
      by (simp add: sigmoid_def math_exp_def neg_def)
    also have "\<dots> = (1 + exp (- x)) / (1 + exp (- x))"
      by (simp only: add_divide_distrib)
    also have "\<dots> = 1"
      by (rule divide_self) (rule pos)
    finally show ?thesis .
  next
    case 2
    then show ?thesis
      by (simp add: sigmoid_def math_exp_def neg_def)
  next
    case 3
    then have "sigmoid x + sigmoid (- x) = 1 / (1 + exp x) + exp x / (1 + exp x)"
      by (simp add: sigmoid_def math_exp_def neg_def)
    also have "\<dots> = (1 + exp x) / (1 + exp x)"
      by (simp only: add_divide_distrib)
    also have "\<dots> = 1"
      by (rule divide_self) (rule pos)
    finally show ?thesis .
  qed
qed

lemma lt_eq_as_float:
  "as_float (lt x y) = (if x < y then 1 else 0)
   \<and> as_float (eq_py x y) = (if x = y then 1 else 0)"
  by (simp add: lt_def eq_py_def)

section \<open>Rounding to the nearest double\<close>























section \<open>The claims\<close>

subsection \<open>reduce\<close>

text \<open>
  C1. For every sequence \<open>[x\<^sub>1, \<dots>, x\<^sub>n]\<close> and start value \<open>s\<^sub>0\<close>, the function
  returned by \<open>reduce fn s\<^sub>0\<close> returns \<open>fn x\<^sub>n (fn x\<^sub>n\<^sub>-\<^sub>1 (\<dots> (fn x\<^sub>1 s\<^sub>0)))\<close>:
  the elements are consumed from the first to the last, the accumulator is the
  second argument of \<open>fn\<close> at each step (so the last element is combined last),
  and on a two-element sequence the result is \<open>fn x\<^sub>2 (fn x\<^sub>1 s\<^sub>0)\<close>.
\<close>

theorem reduce_fold_order:
  "reduce fn s0 xs = spec_reduce fn s0 xs
   \<and> reduce fn s0 (xs @ [xn]) = fn xn (reduce fn s0 xs)
   \<and> reduce fn s0 (x1 # xs) = reduce fn (fn x1 s0) xs
   \<and> reduce fn s0 [x1, x2] = fn x2 (fn x1 s0)"
proof -
  have "reduce fn s0 xs = spec_reduce fn s0 xs"
    by (simp add: reduce_def spec_reduce_def reduce_loop_nested)
  moreover have "reduce fn s0 (xs @ [xn]) = fn xn (reduce fn s0 xs)"
    by (simp add: reduce_def reduce_loop_append)
  moreover have "reduce fn s0 (x1 # xs) = reduce fn (fn x1 s0) xs"
    by (simp add: reduce_def)
  moreover have "reduce fn s0 [x1, x2] = fn x2 (fn x1 s0)"
    by (simp add: reduce_def)
  ultimately show ?thesis by blast
qed

text \<open>
  C9. The function returned by \<open>reduce fn start\<close> returns \<open>start\<close> on the empty
  sequence, for every \<open>fn\<close> and \<open>start\<close>; the sum of the empty sequence is 0 and
  its product is 1; for every sequence \<open>s\<close>, \<open>sum s\<close> is \<open>reduce add 0\<close> applied to
  \<open>s\<close> and \<open>prod s\<close> is \<open>reduce mul 1\<close> applied to \<open>s\<close>.
\<close>

theorem reduce_empty_sum_prod:
  "reduce fn start [] = start
   \<and> sum_py [] = 0
   \<and> prod_py [] = 1
   \<and> sum_py s = reduce add 0 s
   \<and> prod_py s = reduce mul 1 s
   \<and> sum_py s = sum_list s
   \<and> prod_py s = prod_list s"
  by (simp add: sum_py_def prod_py_def reduce_def reduce_loop_add reduce_loop_mul)

subsection \<open>zipWith\<close>

text \<open>
  C2. For all finite sequences \<open>a\<close> and \<open>b\<close> and every binary function \<open>fn\<close>, the
  function returned by \<open>zipWith fn\<close> returns on \<open>(a, b)\<close> a sequence as long as
  the shorter of the two, whose element at each position \<open>i\<close> is
  \<open>fn (a[i]) (b[i])\<close>. In particular \<open>zipWith add [1,2,3] [10,20] = [11,22]\<close>
  (also through \<open>addLists\<close>): sequences of different lengths give a result, not
  an error.
\<close>

theorem zipWith_truncates:
  "length (zipWith fn a b) = min (length a) (length b)
   \<and> (\<forall>i < min (length a) (length b). zipWith fn a b ! i = fn (a ! i) (b ! i))
   \<and> zipWith add [1, 2, 3] [10, 20] = [11, 22]
   \<and> addLists [1, 2, 3] [10, 20] = [11, 22]"
  by (simp add: zipWith_def addLists_def zipWith_loop_map2 add_def)

theorem zipWith_truncates_witness:
  "(1::nat) < min (length [1, 2, 3 :: real]) (length [10, 20 :: real])
   \<and> length (zipWith add [1, 2, 3] [10, 20]) = 2
   \<and> zipWith add [1, 2, 3] [10, 20] ! 1 = add ([1, 2, 3] ! 1) ([10, 20] ! 1)"
proof -
  let ?a = "[1, 2, 3 :: real]" and ?b = "[10, 20 :: real]"
  have h: "(1::nat) < min (length ?a) (length ?b)"
    by simp
  note t = zipWith_truncates [of add ?a ?b]
  from t have len: "length (zipWith add ?a ?b) = min (length ?a) (length ?b)"
    by blast
  from t have "\<forall>i < min (length ?a) (length ?b). zipWith add ?a ?b ! i = add (?a ! i) (?b ! i)"
    by blast
  with h have "zipWith add ?a ?b ! 1 = add (?a ! 1) (?b ! 1)"
    by blast
  moreover from len have "length (zipWith add ?a ?b) = 2"
    by simp
  ultimately show ?thesis using h by blast
qed

subsection \<open>Logarithm and inverse\<close>

text \<open>
  C3. For every scalar \<open>x\<close>, \<open>log x\<close> returns \<open>ln (x + 10\<^sup>-\<^sup>6)\<close> when
  \<open>x + 10\<^sup>-\<^sup>6 > 0\<close>, and raises a domain error (\<^verbatim>\<open>ValueError\<close>) if and only if
  \<open>x + 10\<^sup>-\<^sup>6 \<le> 0\<close>. In particular \<open>log 0\<close> returns \<open>ln 10\<^sup>-\<^sup>6\<close>, which is
  \<open>-13.815\<close> to within a thousandth, and \<open>log (-1)\<close> raises a domain error.
\<close>

theorem log_domain:
  "(x + 1 / 1000000 > 0 \<longrightarrow> log_py x = Inr (ln (x + 1 / 1000000)))
   \<and> ((log_py x = Inl ValueError) = (x + 1 / 1000000 \<le> 0))
   \<and> ((\<exists>e. log_py x = Inl e) = (x + 1 / 1000000 \<le> 0))
   \<and> log_py 0 = Inr (ln (1 / 1000000))
   \<and> \<bar>ln (1 / 1000000 :: real) - (- 13815 / 1000)\<bar> < 1 / 1000
   \<and> log_py (- 1) = Inl ValueError"
proof -
  have "x + 1 / 1000000 > 0 \<longrightarrow> log_py x = Inr (ln (x + 1 / 1000000))"
    by (simp add: log_py_cases EPS_def)
  moreover have "(log_py x = Inl ValueError) = (x + 1 / 1000000 \<le> 0)"
    by (simp add: log_py_cases EPS_def)
  moreover have "(\<exists>e. log_py x = Inl e) = (x + 1 / 1000000 \<le> 0)"
    by (simp add: log_py_cases EPS_def)
  moreover have "log_py 0 = Inr (ln (1 / 1000000))"
    by (simp add: log_py_cases EPS_def)
  moreover have "log_py (- 1) = Inl ValueError"
    by (simp add: log_py_cases EPS_def)
  ultimately show ?thesis
    using ln_millionth_approx by blast
qed

theorem log_domain_witness:
  "(0::real) + 1 / 1000000 > 0 \<and> log_py 0 = Inr (ln (0 + 1 / 1000000))"
proof -
  have h: "(0::real) + 1 / 1000000 > 0"
    by simp
  have "(0::real) + 1 / 1000000 > 0 \<longrightarrow> log_py 0 = Inr (ln (0 + 1 / 1000000))"
    using log_domain [of 0] by blast
  with h show ?thesis by blast
qed

text \<open>
  C4, as stated: for every scalar \<open>x \<le> -10\<^sup>-\<^sup>6\<close> and every \<open>d\<close>, \<open>log_back x d\<close> fails
  with a domain error of the logarithm. The code of \<open>log_back\<close> calls \<open>inv\<close> and
  multiplies; it evaluates no logarithm. At \<open>x = -1\<close>, \<open>d = 1\<close> it returns \<open>-1\<close>.
\<close>

theorem log_back_negative_cex:
  "(- 1 :: real) \<le> - (1 / 1000000)
   \<and> log_back (- 1) 1 = Inr (- 1)
   \<and> log_back (- 1) 1 \<noteq> Inl ValueError"
  by (simp add: log_back_cases)

text \<open>
  C4, amended: for every scalar \<open>x\<close> and every \<open>d\<close>, \<open>log_back x d\<close> never fails
  with a domain error of the logarithm; it fails if and only if \<open>x = 0\<close>, and then
  with a division-by-zero error. In particular for every \<open>x \<le> -10\<^sup>-\<^sup>6\<close> it
  returns a value.
\<close>

theorem log_back_failure:
  "log_back x d \<noteq> Inl ValueError
   \<and> ((\<exists>e. log_back x d = Inl e) = (x = 0))
   \<and> ((log_back x d = Inl ZeroDivisionError) = (x = 0))
   \<and> (x \<le> - (1 / 1000000) \<longrightarrow> (\<exists>v. log_back x d = Inr v))"
  by (simp add: log_back_cases)

theorem log_back_failure_witness:
  "(- 1 :: real) \<le> - (1 / 1000000) \<and> (\<exists>v. log_back (- 1) 1 = Inr v)"
proof -
  have h: "(- 1 :: real) \<le> - (1 / 1000000)"
    by simp
  have "(- 1 :: real) \<le> - (1 / 1000000) \<longrightarrow> (\<exists>v. log_back (- 1) 1 = Inr v)"
    using log_back_failure [of "- 1" 1] by blast
  with h show ?thesis by blast
qed

text \<open>
  C5. For every scalar \<open>x \<noteq> 0\<close> and every \<open>d\<close>, \<open>log_back x d\<close> returns
  \<open>(1 / x) * d\<close>: the value of \<open>inv x * d\<close>, with \<open>1 / x\<close> and not \<open>1 / (x + \<epsilon>)\<close>
  (the two differ whenever \<open>d \<noteq> 0\<close>).
\<close>

theorem log_back_literal:
  "x \<noteq> 0 \<Longrightarrow>
     log_back x d = Inr ((1 / x) * d)
     \<and> (d \<noteq> 0 \<longrightarrow> log_back x d \<noteq> Inr ((1 / (x + EPS)) * d))"
proof -
  assume x: "x \<noteq> 0"
  have "1 / x \<noteq> 1 / (x + EPS)"
  proof (cases "x + EPS = 0")
    case True
    with x show ?thesis by simp
  next
    case False
    with x show ?thesis by (simp add: field_simps EPS_def)
  qed
  with x show ?thesis
    by (simp add: log_back_cases)
qed

theorem log_back_literal_witness:
  "(2::real) \<noteq> 0 \<and> (3::real) \<noteq> 0
   \<and> log_back 2 3 = Inr ((1 / 2) * 3)
   \<and> log_back 2 3 \<noteq> Inr ((1 / (2 + EPS)) * 3)"
proof -
  have h: "(2::real) \<noteq> 0" and k: "(3::real) \<noteq> 0"
    by simp_all
  note t = log_back_literal [OF h, of 3]
  from t have "log_back 2 3 = Inr ((1 / 2) * 3)"
    by blast
  moreover from t k have "log_back 2 3 \<noteq> Inr ((1 / (2 + EPS)) * 3)"
    by blast
  ultimately show ?thesis using h k by blast
qed




subsection \<open>Comparisons\<close>

text \<open>
  C6 claims that \<open>lt x y\<close> returns the float \<open>1.0\<close> if \<open>x < y\<close> and the float \<open>0.0\<close>
  otherwise, and \<open>eq x y\<close> the float \<open>1.0\<close> if \<open>x = y\<close> and the float \<open>0.0\<close>
  otherwise. The code returns the result of the comparison itself, an object of
  class \<^verbatim>\<open>bool\<close>: \<open>lt 1 2\<close> and \<open>eq 1 1\<close> are \<^verbatim>\<open>True\<close>, \<open>lt 2 1\<close> and \<open>eq 1 2\<close> are
  \<^verbatim>\<open>False\<close>, none of them a float (their numeric values are those the claim
  names, by \<open>lt_eq_as_float\<close>).
\<close>

theorem lt_eq_return_bool:
  "lt 1 2 = PyBool True \<and> lt 1 2 \<noteq> PyFloat 1
   \<and> lt 2 1 = PyBool False \<and> lt 2 1 \<noteq> PyFloat 0
   \<and> eq_py 1 1 = PyBool True \<and> eq_py 1 1 \<noteq> PyFloat 1
   \<and> eq_py 1 2 = PyBool False \<and> eq_py 1 2 \<noteq> PyFloat 0"
  by (simp add: lt_def eq_py_def)

subsection \<open>Sigmoid\<close>

text \<open>
  C8. For every scalar \<open>x\<close>, \<open>is_close (sigmoid x + sigmoid (-x)) 1.0\<close> holds, that
  is \<open>\<bar>sigmoid x + sigmoid (-x) - 1\<bar> < 0.01\<close>, where \<open>sigmoid x\<close> is
  \<open>1 / (1 + e\<^sup>-\<^sup>x)\<close> for \<open>x \<ge> 0\<close> and \<open>e\<^sup>x / (1 + e\<^sup>x)\<close> for \<open>x < 0\<close>.
\<close>

theorem sigmoid_symmetry:
  "is_close (sigmoid x + sigmoid (- x)) 1 = PyBool True
   \<and> \<bar>sigmoid x + sigmoid (- x) - 1\<bar> < 1 / 100
   \<and> sigmoid x = (if x \<ge> 0 then 1 / (1 + exp (- x)) else exp x / (1 + exp x))"
  by (simp add: is_close_def sigmoid_sum) (simp add: sigmoid_def math_exp_def neg_def)



end
